theory Spec2Isabelle
  imports Complex_Main
begin

section \<open>JavaScript numbers\<close>

text \<open>
  The component computes with the TypeScript type \<open>number\<close>. A number is modelled
  as a real, one of the two infinities, or NaN. Arithmetic on finite values is exact real
  arithmetic: rounding, overflow and the sign of zero are not modelled (a zero divisor
  is taken as \<open>+0\<close>). What is modelled is where the operations leave the reals: \<open>0/0\<close>,
  \<open>Math.acos\<close> outside \<open>[-1, 1]\<close> and \<open>Math.sqrt\<close> of a negative value are NaN,
  and NaN propagates through every operation.
\<close>

datatype number = Fin real | PInf | NInf | NaN

instantiation number :: "{plus, uminus, minus, times, inverse}"
begin

fun plus_number :: "number \<Rightarrow> number \<Rightarrow> number" where
  "plus_number (Fin a) (Fin b) = Fin (a + b)"
| "plus_number NaN _ = NaN"
| "plus_number _ NaN = NaN"
| "plus_number PInf NInf = NaN"
| "plus_number NInf PInf = NaN"
| "plus_number PInf _ = PInf"
| "plus_number _ PInf = PInf"
| "plus_number NInf _ = NInf"
| "plus_number _ NInf = NInf"

fun uminus_number :: "number \<Rightarrow> number" where
  "uminus_number (Fin a) = Fin (- a)"
| "uminus_number PInf = NInf"
| "uminus_number NInf = PInf"
| "uminus_number NaN = NaN"

definition minus_number :: "number \<Rightarrow> number \<Rightarrow> number" where
  "minus_number a b = a + (- b)"

fun times_number :: "number \<Rightarrow> number \<Rightarrow> number" where
  "times_number (Fin a) (Fin b) = Fin (a * b)"
| "times_number NaN _ = NaN"
| "times_number _ NaN = NaN"
| "times_number PInf (Fin b) = (if b = 0 then NaN else if 0 < b then PInf else NInf)"
| "times_number NInf (Fin b) = (if b = 0 then NaN else if 0 < b then NInf else PInf)"
| "times_number (Fin a) PInf = (if a = 0 then NaN else if 0 < a then PInf else NInf)"
| "times_number (Fin a) NInf = (if a = 0 then NaN else if 0 < a then NInf else PInf)"
| "times_number PInf PInf = PInf"
| "times_number PInf NInf = NInf"
| "times_number NInf PInf = NInf"
| "times_number NInf NInf = PInf"

fun divide_number :: "number \<Rightarrow> number \<Rightarrow> number" where
  "divide_number (Fin a) (Fin b) =
     (if b \<noteq> 0 then Fin (a / b)
      else if a = 0 then NaN else if 0 < a then PInf else NInf)"
| "divide_number NaN _ = NaN"
| "divide_number _ NaN = NaN"
| "divide_number (Fin a) PInf = Fin 0"
| "divide_number (Fin a) NInf = Fin 0"
| "divide_number PInf (Fin b) = (if 0 \<le> b then PInf else NInf)"
| "divide_number NInf (Fin b) = (if 0 \<le> b then NInf else PInf)"
| "divide_number PInf PInf = NaN"
| "divide_number PInf NInf = NaN"
| "divide_number NInf PInf = NaN"
| "divide_number NInf NInf = NaN"

definition inverse_number :: "number \<Rightarrow> number" where
  "inverse_number a = divide (Fin 1) a"

instance ..

end

text \<open>The functions of \<open>Math\<close> that the component calls, and \<open>===\<close> on numbers.\<close>

definition Math_PI :: number where
  "Math_PI = Fin pi"

fun Math_sqrt :: "number \<Rightarrow> number" where
  "Math_sqrt (Fin a) = (if a < 0 then NaN else Fin (sqrt a))"
| "Math_sqrt PInf = PInf"
| "Math_sqrt NInf = NaN"
| "Math_sqrt NaN = NaN"

fun Math_acos :: "number \<Rightarrow> number" where
  "Math_acos (Fin a) = (if - 1 \<le> a \<and> a \<le> 1 then Fin (arccos a) else NaN)"
| "Math_acos _ = NaN"

fun Math_cos :: "number \<Rightarrow> number" where
  "Math_cos (Fin a) = Fin (cos a)"
| "Math_cos _ = NaN"

fun Math_sin :: "number \<Rightarrow> number" where
  "Math_sin (Fin a) = Fin (sin a)"
| "Math_sin _ = NaN"

text \<open>The two-argument arctangent on the reals: the angle of the point \<open>(x, y)\<close>.\<close>

definition atan2 :: "real \<Rightarrow> real \<Rightarrow> real" where
  "atan2 y x =
     (if 0 < x then arctan (y / x)
      else if x < 0 then (if 0 \<le> y then arctan (y / x) + pi else arctan (y / x) - pi)
      else if 0 < y then pi / 2
      else if y < 0 then - (pi / 2)
      else 0)"

fun Math_atan2 :: "number \<Rightarrow> number \<Rightarrow> number" where
  "Math_atan2 (Fin y) (Fin x) = Fin (atan2 y x)"
| "Math_atan2 NaN _ = NaN"
| "Math_atan2 _ NaN = NaN"
| "Math_atan2 (Fin y) PInf = Fin 0"
| "Math_atan2 (Fin y) NInf = Fin (if 0 \<le> y then pi else - pi)"
| "Math_atan2 PInf (Fin x) = Fin (pi / 2)"
| "Math_atan2 NInf (Fin x) = Fin (- (pi / 2))"
| "Math_atan2 PInf PInf = Fin (pi / 4)"
| "Math_atan2 PInf NInf = Fin (3 * pi / 4)"
| "Math_atan2 NInf PInf = Fin (- (pi / 4))"
| "Math_atan2 NInf NInf = Fin (- (3 * pi / 4))"

fun Math_max :: "number \<Rightarrow> number \<Rightarrow> number" where
  "Math_max (Fin a) (Fin b) = Fin (max a b)"
| "Math_max NaN _ = NaN"
| "Math_max _ NaN = NaN"
| "Math_max PInf _ = PInf"
| "Math_max _ PInf = PInf"
| "Math_max NInf b = b"
| "Math_max a NInf = a"

fun Math_min :: "number \<Rightarrow> number \<Rightarrow> number" where
  "Math_min (Fin a) (Fin b) = Fin (min a b)"
| "Math_min NaN _ = NaN"
| "Math_min _ NaN = NaN"
| "Math_min NInf _ = NInf"
| "Math_min _ NInf = NInf"
| "Math_min PInf b = b"
| "Math_min a PInf = a"

definition strict_eq :: "number \<Rightarrow> number \<Rightarrow> bool" where
  "strict_eq a b = (a \<noteq> NaN \<and> a = b)"

text \<open>
  Reading \<open>xs[i]\<close> from a \<open>number[]\<close>, also through array destructuring. Past the end
  JavaScript yields \<open>undefined\<close>; every use the component makes of such a value is
  arithmetic, which converts \<open>undefined\<close> to NaN.
\<close>

definition item :: "number list \<Rightarrow> nat \<Rightarrow> number" where
  "item xs i = (if i < length xs then xs ! i else NaN)"

section \<open>Inverse kinematics\<close>

definition calculateInverseKinematics :: "number \<Rightarrow> number \<Rightarrow> number list \<Rightarrow> number list" where
  "calculateInverseKinematics x y armLengths =
     (let l1 = item armLengths 0; l2 = item armLengths 1; l3 = item armLengths 2;
          theta1 = Math_atan2 y x;
          r = Math_sqrt (x * x + y * y);
          a = r - l3;
          b = Math_sqrt (a * a + l2 * l2);
          c = Math_sqrt (l1 * l1 + b * b);
          theta3 = Math_acos ((l1 * l1 + b * b - c * c) / (Fin 2 * l1 * b));
          alpha = Math_atan2 a l2;
          beta = Math_acos ((l1 * l1 + c * c - b * b) / (Fin 2 * l1 * c));
          theta2 = alpha + beta
      in [theta1, theta2, theta3])"

text \<open>
  The values of the solver's local constants \<open>a\<close>, \<open>b\<close> and \<open>c\<close> and of the two
  arguments it passes to \<open>Math.acos\<close>, as functions of its inputs.
\<close>

definition solver_a :: "number \<Rightarrow> number \<Rightarrow> number list \<Rightarrow> number" where
  "solver_a x y armLengths = Math_sqrt (x * x + y * y) - item armLengths 2"

definition solver_b :: "number \<Rightarrow> number \<Rightarrow> number list \<Rightarrow> number" where
  "solver_b x y armLengths =
     (let l2 = item armLengths 1; a = solver_a x y armLengths
      in Math_sqrt (a * a + l2 * l2))"

definition solver_c :: "number \<Rightarrow> number \<Rightarrow> number list \<Rightarrow> number" where
  "solver_c x y armLengths =
     (let l1 = item armLengths 0; b = solver_b x y armLengths
      in Math_sqrt (l1 * l1 + b * b))"

definition solver_ratio3 :: "number \<Rightarrow> number \<Rightarrow> number list \<Rightarrow> number" where
  "solver_ratio3 x y armLengths =
     (let l1 = item armLengths 0; b = solver_b x y armLengths; c = solver_c x y armLengths
      in (l1 * l1 + b * b - c * c) / (Fin 2 * l1 * b))"

definition solver_ratio2 :: "number \<Rightarrow> number \<Rightarrow> number list \<Rightarrow> number" where
  "solver_ratio2 x y armLengths =
     (let l1 = item armLengths 0; b = solver_b x y armLengths; c = solver_c x y armLengths
      in (l1 * l1 + c * c - b * b) / (Fin 2 * l1 * c))"

section \<open>The drawing surface\<close>

text \<open>
  A \<open>CanvasRenderingContext2D\<close> is modelled by the sequence of calls and property
  assignments it has received; every drawing function appends to it.
\<close>

datatype call =
    FillStyle string
  | StrokeStyle string
  | FillRect number number number number
  | StrokeRect number number number number
  | BeginPath
  | MoveTo number number
  | LineTo number number
  | Arc number number number number number
  | Stroke
  | Fill

type_synonym context2d = "call list"

definition drawBase ::
  "context2d \<Rightarrow> number \<Rightarrow> number \<Rightarrow> number \<Rightarrow> number \<Rightarrow> number \<Rightarrow> number \<Rightarrow> number \<Rightarrow> context2d" where
  "drawBase ctx baseX baseY baseWidth baseHeight wheelRadius canvasHeight groundHeight =
     ctx @
     [FillStyle ''#000'',
      FillRect baseX baseY baseWidth baseHeight,
      StrokeRect baseX baseY baseWidth baseHeight,
      BeginPath,
      Arc (baseX + wheelRadius) (canvasHeight - groundHeight - wheelRadius) wheelRadius
        (Fin 0) (Fin 2 * Math_PI),
      Arc (baseX + baseWidth - wheelRadius) (canvasHeight - groundHeight - wheelRadius) wheelRadius
        (Fin 0) (Fin 2 * Math_PI),
      FillStyle ''#928f8e'',
      Fill]"

definition drawGripper ::
  "context2d \<Rightarrow> number \<Rightarrow> number \<Rightarrow> number \<Rightarrow> number \<Rightarrow> context2d" where
  "drawGripper ctx armLink3EndX armLink3EndY armTheta3 gripperWidth =
     (let gripperCenterX = armLink3EndX;
          gripperCenterY = armLink3EndY;
          gripperFinger1StartX =
            gripperCenterX - (gripperWidth / Fin 2) * Math_cos (armTheta3 - Math_PI / Fin 2);
          gripperFinger1StartY =
            gripperCenterY - (gripperWidth / Fin 2) * Math_sin (armTheta3 - Math_PI / Fin 2);
          gripperFinger1EndX = gripperCenterX;
          gripperFinger1EndY = gripperCenterY;
          gripperFinger2StartX = gripperCenterX;
          gripperFinger2StartY = gripperCenterY;
          gripperFinger2EndX =
            gripperCenterX + (gripperWidth / Fin 2) * Math_cos (armTheta3 - Math_PI / Fin 2);
          gripperFinger2EndY =
            gripperCenterY + (gripperWidth / Fin 2) * Math_sin (armTheta3 - Math_PI / Fin 2)
      in ctx @
         [BeginPath,
          MoveTo gripperFinger1StartX gripperFinger1StartY,
          LineTo gripperFinger1EndX gripperFinger1EndY,
          StrokeStyle ''#e0f'',
          Stroke,
          BeginPath,
          MoveTo gripperFinger2StartX gripperFinger2StartY,
          LineTo gripperFinger2EndX gripperFinger2EndY,
          StrokeStyle ''#00f'',
          Stroke])"

definition drawArm ::
  "context2d \<Rightarrow> number \<Rightarrow> number \<Rightarrow> number list \<Rightarrow> number list \<Rightarrow> number \<Rightarrow> context2d" where
  "drawArm ctx baseX baseY armLengths armThetas baseWidth =
     (let armTheta1 = item armThetas 0;
          armTheta2 = item armThetas 1;
          armTheta3 = item armThetas 2;
          armLink1StartX = baseX + baseWidth / Fin 1.25;
          armLink1StartY = baseY;
          armLink1EndX = armLink1StartX + item armLengths 0 * Math_cos armTheta1;
          armLink1EndY = armLink1StartY - item armLengths 0 * Math_sin armTheta1;
          ctx1 = ctx @
            [BeginPath,
             MoveTo armLink1StartX armLink1StartY,
             LineTo armLink1EndX armLink1EndY,
             StrokeStyle ''#f00'',
             Stroke];
          armLink2StartX = armLink1EndX;
          armLink2StartY = armLink1EndY;
          armLink2EndX = armLink2StartX + item armLengths 1 * Math_cos armTheta2;
          armLink2EndY = armLink2StartY - item armLengths 1 * Math_sin armTheta2;
          ctx2 = ctx1 @
            [BeginPath,
             MoveTo armLink2StartX armLink2StartY,
             LineTo armLink2EndX armLink2EndY,
             StrokeStyle ''#0f0'',
             Stroke];
          armLink3StartX = armLink2EndX;
          armLink3StartY = armLink2EndY;
          armLink3EndX = armLink3StartX + item armLengths 2 * Math_cos armTheta3;
          armLink3EndY = armLink3StartY - item armLengths 2 * Math_sin armTheta3;
          ctx3 = ctx2 @
            [BeginPath,
             MoveTo armLink3StartX armLink3StartY,
             LineTo armLink3EndX armLink3EndY,
             StrokeStyle ''#f00'',
             Stroke];
          gripperWidth = Fin 30
      in drawGripper ctx3 armLink3EndX armLink3EndY armTheta3 gripperWidth)"

section \<open>The base position\<close>

text \<open>
  The state \<open>{ x, y }\<close> of \<open>useBasePosition\<close> (the fields are named \<open>pos_x\<close> and
  \<open>pos_y\<close> here), and the canvas element as far as the component reads it. A canvas
  reference that is not attached yet is \<open>None\<close>.
\<close>

record position =
  pos_x :: number
  pos_y :: number

record canvas =
  canvas_width :: number
  canvas_height :: number

definition initialBasePosition :: position where
  "initialBasePosition = \<lparr>pos_x = Fin 0, pos_y = Fin 0\<rparr>"

text \<open>
  The click handler. \<open>clientX\<close> is the event's coordinate and \<open>rectLeft\<close> the left edge
  that \<open>getBoundingClientRect\<close> reports; the result is the state after the update
  \<open>setBasePosition((prev) => ({ ...prev, x: newBaseX }))\<close>.
\<close>

definition handleCanvasClick ::
  "number \<Rightarrow> canvas option \<Rightarrow> number \<Rightarrow> number \<Rightarrow> position \<Rightarrow> position" where
  "handleCanvasClick baseWidth canvasRef clientX rectLeft prev =
     (case canvasRef of
        None \<Rightarrow> prev
      | Some canvas \<Rightarrow>
          (let clickedX = clientX - rectLeft;
               newBaseX =
                 Math_min (Math_max (clickedX - baseWidth / Fin 2) (Fin 0))
                   (canvas_width canvas - baseWidth)
           in prev\<lparr>pos_x := newBaseX\<rparr>))"

text \<open>
  The drawing effect of \<open>WMMCanvas\<close>. \<open>hasContext\<close> says whether \<open>getContext("2d")\<close>
  returned a context, and \<open>newWidth\<close> is the value \<open>canvas.width\<close> holds after the
  assignment of 80% of the parent's client width (0 without a parent). The result is the
  canvas, the base position after the \<open>setBasePosition\<close> the effect may issue, and the
  calls drawn, which use the position the effect started with.
\<close>

definition WMMCanvas_effect ::
  "canvas option \<Rightarrow> bool \<Rightarrow> number \<Rightarrow> position \<Rightarrow> canvas option \<times> position \<times> context2d" where
  "WMMCanvas_effect canvasRef hasContext newWidth basePosition =
     (let baseWidth = Fin 100;
          baseHeight = Fin 40;
          wheelRadius = Fin 10;
          armLengths = [Fin 60, Fin 80, Fin 60];
          armThetas = [Math_PI / Fin 2, Fin 0, - Math_PI / Fin 2];
          groundHeight = Fin 40
      in case canvasRef of
           None \<Rightarrow> (canvasRef, basePosition, [])
         | Some canvas0 \<Rightarrow>
             if \<not> hasContext then (canvasRef, basePosition, [])
             else
               (let canvas = canvas0\<lparr>canvas_width := newWidth, canvas_height := Fin 300\<rparr>;
                    ctx0 =
                      [FillStyle ''#ebe4d6'',
                       FillRect (Fin 0) (Fin 0) (canvas_width canvas) (canvas_height canvas),
                       BeginPath,
                       MoveTo (Fin 0) (canvas_height canvas - groundHeight),
                       LineTo (canvas_width canvas) (canvas_height canvas - groundHeight),
                       StrokeStyle ''#000'',
                       Stroke];
                    baseStartX = (canvas_width canvas - baseWidth) / Fin 2;
                    baseY = canvas_height canvas - groundHeight - baseHeight - wheelRadius;
                    basePosition' =
                      (if strict_eq (pos_x basePosition) (Fin 0) \<and> strict_eq (pos_y basePosition) (Fin 0)
                       then \<lparr>pos_x = baseStartX, pos_y = baseY\<rparr>
                       else basePosition);
                    ctx1 = drawBase ctx0 (pos_x basePosition) (pos_y basePosition)
                             baseWidth baseHeight wheelRadius (canvas_height canvas) groundHeight;
                    ctx2 = drawArm ctx1 (pos_x basePosition) (pos_y basePosition)
                             armLengths armThetas baseWidth
                in (Some canvas, basePosition', ctx2)))"

section \<open>The specification's notions\<close>

text \<open>
  The solver as the specification writes it, on the reals, and the inputs on which its
  two inverse cosines are defined.
\<close>

definition ik_spec :: "real \<Rightarrow> real \<Rightarrow> real \<Rightarrow> real \<Rightarrow> real \<Rightarrow> real \<times> real \<times> real" where
  "ik_spec x y l1 l2 l3 =
     (let theta1 = atan2 y x;
          r = sqrt (x\<^sup>2 + y\<^sup>2);
          a = r - l3;
          b = sqrt (a\<^sup>2 + l2\<^sup>2);
          c = sqrt (l1\<^sup>2 + b\<^sup>2);
          theta3 = arccos ((l1\<^sup>2 + b\<^sup>2 - c\<^sup>2) / (2 * l1 * b));
          alpha = atan2 a l2;
          beta = arccos ((l1\<^sup>2 + c\<^sup>2 - b\<^sup>2) / (2 * l1 * c));
          theta2 = alpha + beta
      in (theta1, theta2, theta3))"

definition ik_b :: "real \<Rightarrow> real \<Rightarrow> real \<Rightarrow> real \<Rightarrow> real" where
  "ik_b x y l2 l3 = sqrt ((sqrt (x\<^sup>2 + y\<^sup>2) - l3)\<^sup>2 + l2\<^sup>2)"

definition ik_c :: "real \<Rightarrow> real \<Rightarrow> real \<Rightarrow> real \<Rightarrow> real \<Rightarrow> real" where
  "ik_c x y l1 l2 l3 = sqrt (l1\<^sup>2 + (ik_b x y l2 l3)\<^sup>2)"

definition ik_ratio3 :: "real \<Rightarrow> real \<Rightarrow> real \<Rightarrow> real \<Rightarrow> real \<Rightarrow> real" where
  "ik_ratio3 x y l1 l2 l3 =
     (l1\<^sup>2 + (ik_b x y l2 l3)\<^sup>2 - (ik_c x y l1 l2 l3)\<^sup>2) / (2 * l1 * ik_b x y l2 l3)"

definition ik_ratio2 :: "real \<Rightarrow> real \<Rightarrow> real \<Rightarrow> real \<Rightarrow> real \<Rightarrow> real" where
  "ik_ratio2 x y l1 l2 l3 =
     (l1\<^sup>2 + (ik_c x y l1 l2 l3)\<^sup>2 - (ik_b x y l2 l3)\<^sup>2) / (2 * l1 * ik_c x y l1 l2 l3)"

definition ik_domain :: "real \<Rightarrow> real \<Rightarrow> real \<Rightarrow> real \<Rightarrow> real \<Rightarrow> bool" where
  "ik_domain x y l1 l2 l3 =
     (l1 \<noteq> 0 \<and> ik_b x y l2 l3 \<noteq> 0 \<and>
      - 1 \<le> ik_ratio3 x y l1 l2 l3 \<and> ik_ratio3 x y l1 l2 l3 \<le> 1 \<and>
      - 1 \<le> ik_ratio2 x y l1 l2 l3 \<and> ik_ratio2 x y l1 l2 l3 \<le> 1)"

fun is_finite :: "number \<Rightarrow> bool" where
  "is_finite (Fin a) = True"
| "is_finite _ = False"

text \<open>A returned value that is an angle or NaN, and not one of the infinities.\<close>

fun angle_or_NaN :: "number \<Rightarrow> bool" where
  "angle_or_NaN (Fin t) = True"
| "angle_or_NaN NaN = True"
| "angle_or_NaN _ = False"

text \<open>
  One step of the kinematic chain: the end point of a link of length \<open>l\<close> at the absolute
  angle \<open>theta\<close> that starts at \<open>p\<close>; and the calls that stroke a segment.
\<close>

fun link_end :: "number \<times> number \<Rightarrow> number \<Rightarrow> number \<Rightarrow> number \<times> number" where
  "link_end (px, py) l theta = (px + l * Math_cos theta, py - l * Math_sin theta)"

fun segment :: "number \<times> number \<Rightarrow> number \<times> number \<Rightarrow> string \<Rightarrow> call list" where
  "segment (px, py) (qx, qy) colour =
     [BeginPath, MoveTo px py, LineTo qx qy, StrokeStyle colour, Stroke]"

text \<open>The points and circles a sequence of calls draws.\<close>

fun lineTos :: "call list \<Rightarrow> (number \<times> number) list" where
  "lineTos [] = []"
| "lineTos (LineTo px py # cs) = (px, py) # lineTos cs"
| "lineTos (_ # cs) = lineTos cs"

fun arcs :: "call list \<Rightarrow> (number \<times> number \<times> number) list" where
  "arcs [] = []"
| "arcs (Arc cx cy r _ _ # cs) = (cx, cy, r) # arcs cs"
| "arcs (_ # cs) = arcs cs"

text \<open>
  Collinear links: the directions of any two links, each the unit step of \<open>link_end\<close>,
  are parallel (their cross product is zero). A straight chain, in which no joint bends,
  has collinear links.
\<close>

definition link_direction :: "number \<Rightarrow> number \<times> number" where
  "link_direction theta = (Math_cos theta, - Math_sin theta)"

fun parallel :: "number \<times> number \<Rightarrow> number \<times> number \<Rightarrow> bool" where
  "parallel (ux, uy) (vx, vy) = (ux * vy - uy * vx = Fin 0)"

definition collinear_links :: "number list \<Rightarrow> bool" where
  "collinear_links thetas =
     (parallel (link_direction (item thetas 0)) (link_direction (item thetas 1)) \<and>
      parallel (link_direction (item thetas 1)) (link_direction (item thetas 2)) \<and>
      parallel (link_direction (item thetas 0)) (link_direction (item thetas 2)))"

text \<open>Clamping a real into the interval from \<open>lo\<close> to \<open>hi\<close>, and membership of a number in it.\<close>

definition clamp :: "real \<Rightarrow> real \<Rightarrow> real \<Rightarrow> real" where
  "clamp lo hi v = (if v < lo then lo else if hi < v then hi else v)"

fun in_interval :: "number \<Rightarrow> real \<Rightarrow> real \<Rightarrow> bool" where
  "in_interval (Fin v) lo hi = (lo \<le> v \<and> v \<le> hi)"
| "in_interval _ lo hi = False"

section \<open>Facts about the solver\<close>

lemma Fin_minus: "Fin a - Fin b = Fin (a - b)"
  by (simp add: minus_number_def)

lemma Math_sqrt_sum_squares:
  "Math_sqrt (Fin a * Fin a + Fin b * Fin b) = Fin (sqrt (a\<^sup>2 + b\<^sup>2))"
proof -
  have "\<not> a * a + b * b < 0" by (simp add: not_less)
  then show ?thesis by (simp add: power2_eq_square)
qed

lemma item_triple:
  "item [p, q, r] 0 = p" "item [p, q, r] 1 = q" "item [p, q, r] 2 = r"
  by (simp_all add: item_def)

lemma ik_b_pos: "l2 \<noteq> 0 \<Longrightarrow> 0 < ik_b x y l2 l3"
proof -
  assume "l2 \<noteq> 0"
  then have "0 < l2\<^sup>2" by simp
  then have "0 < (sqrt (x\<^sup>2 + y\<^sup>2) - l3)\<^sup>2 + l2\<^sup>2"
    by (rule add_nonneg_pos [OF zero_le_power2])
  then show ?thesis by (simp add: ik_b_def)
qed

lemma ik_c_sq: "(ik_c x y l1 l2 l3)\<^sup>2 = l1\<^sup>2 + (ik_b x y l2 l3)\<^sup>2"
  by (simp add: ik_c_def)

lemma ik_c_ge: "\<bar>l1\<bar> \<le> ik_c x y l1 l2 l3"
  unfolding ik_c_def by (rule real_le_rsqrt) simp

lemma ik_c_pos: "l1 \<noteq> 0 \<Longrightarrow> 0 < ik_c x y l1 l2 l3"
  using ik_c_ge [of l1 x y l2 l3] by simp

text \<open>
  The first ratio is zero by the choice of \<open>c\<close>, and the second ratio is \<open>l1 / c\<close>,
  which lies between \<open>-1\<close> and \<open>1\<close> since \<open>c\<close> is at least \<open>\<bar>l1\<bar>\<close>.
\<close>

lemma ik_ratio3_zero: "ik_ratio3 x y l1 l2 l3 = 0"
  by (simp add: ik_ratio3_def ik_c_sq)

lemma ik_ratio2_eq: "ik_ratio2 x y l1 l2 l3 = l1 / ik_c x y l1 l2 l3"
proof -
  have "l1\<^sup>2 + (ik_c x y l1 l2 l3)\<^sup>2 - (ik_b x y l2 l3)\<^sup>2 = 2 * l1 * l1"
    unfolding ik_c_sq by (simp add: power2_eq_square)
  then show ?thesis by (simp add: ik_ratio2_def)
qed

lemma ik_ratio2_bounds: "- 1 \<le> ik_ratio2 x y l1 l2 l3 \<and> ik_ratio2 x y l1 l2 l3 \<le> 1"
proof (cases "l1 = 0")
  case True
  then show ?thesis by (simp add: ik_ratio2_eq)
next
  case False
  have c: "0 < ik_c x y l1 l2 l3" using False by (rule ik_c_pos)
  have "\<bar>l1\<bar> \<le> ik_c x y l1 l2 l3" by (rule ik_c_ge)
  then have "- ik_c x y l1 l2 l3 \<le> l1" "l1 \<le> ik_c x y l1 l2 l3" by simp_all
  with c show ?thesis by (simp add: ik_ratio2_eq pos_le_divide_eq pos_divide_le_eq)
qed

text \<open>What the solver returns on a finite target and three finite lengths.\<close>

lemma ik_code_cases:
  "calculateInverseKinematics (Fin x) (Fin y) [Fin l1, Fin l2, Fin l3] =
     [Fin (atan2 y x),
      (if l1 = 0 then NaN
       else Fin (atan2 (sqrt (x\<^sup>2 + y\<^sup>2) - l3) l2 + arccos (ik_ratio2 x y l1 l2 l3))),
      (if l1 = 0 \<or> ik_b x y l2 l3 = 0 then NaN else Fin (pi / 2))]"
proof -
  define r where "r = sqrt (x\<^sup>2 + y\<^sup>2)"
  define a where "a = r - l3"
  define bb where "bb = ik_b x y l2 l3"
  define c where "c = ik_c x y l1 l2 l3"
  have r: "Math_sqrt (Fin x * Fin x + Fin y * Fin y) = Fin r"
    by (simp only: Math_sqrt_sum_squares r_def)
  have a: "Fin r - Fin l3 = Fin a"
    by (simp only: a_def Fin_minus)
  have bb: "Math_sqrt (Fin a * Fin a + Fin l2 * Fin l2) = Fin bb"
    by (simp only: Math_sqrt_sum_squares bb_def ik_b_def a_def r_def)
  have c: "Math_sqrt (Fin l1 * Fin l1 + Fin bb * Fin bb) = Fin c"
    by (simp only: Math_sqrt_sum_squares c_def ik_c_def bb_def)
  have csq: "c * c = l1 * l1 + bb * bb"
    using ik_c_sq [of x y l1 l2 l3] by (simp add: c_def bb_def power2_eq_square)
  have cne: "l1 \<noteq> 0 \<Longrightarrow> c \<noteq> 0"
    using ik_c_pos [of l1 x y l2 l3] by (simp add: c_def)
  have q3: "(Fin l1 * Fin l1 + Fin bb * Fin bb - Fin c * Fin c) / (Fin 2 * Fin l1 * Fin bb)
            = (if l1 = 0 \<or> bb = 0 then NaN else Fin 0)"
    by (simp add: Fin_minus csq)
  have "l1 * l1 + c * c - bb * bb = 2 * l1 * l1" by (simp add: csq)
  then have n2: "Fin l1 * Fin l1 + Fin c * Fin c - Fin bb * Fin bb = Fin (2 * l1 * l1)"
    by (simp add: Fin_minus)
  have q2: "(Fin l1 * Fin l1 + Fin c * Fin c - Fin bb * Fin bb) / (Fin 2 * Fin l1 * Fin c)
            = (if l1 = 0 then NaN else Fin (ik_ratio2 x y l1 l2 l3))"
    unfolding n2 using cne by (simp add: ik_ratio2_eq c_def)
  have "calculateInverseKinematics (Fin x) (Fin y) [Fin l1, Fin l2, Fin l3] =
         [Fin (atan2 y x),
          Fin (atan2 a l2) + Math_acos (if l1 = 0 then NaN else Fin (ik_ratio2 x y l1 l2 l3)),
          Math_acos (if l1 = 0 \<or> bb = 0 then NaN else Fin 0)]"
    unfolding calculateInverseKinematics_def Let_def
    by (simp only: item_triple r a bb c q3 q2 Math_atan2.simps)
  then show ?thesis
    using ik_ratio2_bounds [of x y l1 l2 l3] by (simp add: a_def r_def bb_def)
qed

lemma ik_spec_eq:
  "ik_spec x y l1 l2 l3 =
     (atan2 y x,
      atan2 (sqrt (x\<^sup>2 + y\<^sup>2) - l3) l2 + arccos (ik_ratio2 x y l1 l2 l3),
      arccos (ik_ratio3 x y l1 l2 l3))"
  by (simp add: ik_spec_def Let_def ik_ratio2_def ik_ratio3_def ik_b_def ik_c_def)

lemma ik_domain_iff: "ik_domain x y l1 l2 l3 \<longleftrightarrow> l1 \<noteq> 0 \<and> ik_b x y l2 l3 \<noteq> 0"
  using ik_ratio2_bounds [of x y l1 l2 l3] by (simp add: ik_domain_def ik_ratio3_zero)

text \<open>
  With positive \<open>l1\<close> and \<open>l2\<close> and a target farther from the shoulder than \<open>l3\<close>, the
  second angle lies strictly between \<open>0\<close> and \<open>\<pi>\<close>.
\<close>

lemma ik_theta2_range:
  assumes l1: "0 < l1" and l2: "0 < l2" and far: "l3 < sqrt (x\<^sup>2 + y\<^sup>2)"
  defines "theta2 \<equiv> atan2 (sqrt (x\<^sup>2 + y\<^sup>2) - l3) l2 + arccos (ik_ratio2 x y l1 l2 l3)"
  shows "0 < theta2 \<and> theta2 < pi"
proof -
  define a where "a = sqrt (x\<^sup>2 + y\<^sup>2) - l3"
  have a: "0 < a" using far by (simp add: a_def)
  have alpha: "atan2 a l2 = arctan (a / l2)" using l2 by (simp add: atan2_def)
  have "0 < a / l2" using a l2 by simp
  then have a0: "0 < arctan (a / l2)" by (simp only: zero_less_arctan_iff)
  have a1: "arctan (a / l2) < pi / 2" by (rule arctan_ubound)
  have c: "0 < ik_c x y l1 l2 l3" using l1 by (simp add: ik_c_pos)
  have q0: "0 \<le> ik_ratio2 x y l1 l2 l3" using l1 c by (simp add: ik_ratio2_eq)
  have q1: "ik_ratio2 x y l1 l2 l3 \<le> 1" using ik_ratio2_bounds [of x y l1 l2 l3] by simp
  have b0: "0 \<le> arccos (ik_ratio2 x y l1 l2 l3)" using q0 q1 by (simp add: arccos_lbound)
  have b1: "arccos (ik_ratio2 x y l1 l2 l3) \<le> pi / 2" using q0 q1 by (rule arccos_le_pi2)
  show ?thesis
    unfolding theta2_def a_def [symmetric] alpha using a0 a1 b0 b1 by linarith
qed

text \<open>
  The solver in terms of its intermediate values, for every input. The facts that follow
  use only how division by zero, NaN and the ranges of \<open>Math.acos\<close> and \<open>Math.atan2\<close>
  behave, not the value an arithmetic operation gives on finite operands.
\<close>

lemma ik_by_parts:
  "calculateInverseKinematics x y armLengths =
     [Math_atan2 y x,
      Math_atan2 (solver_a x y armLengths) (item armLengths 1)
        + Math_acos (solver_ratio2 x y armLengths),
      Math_acos (solver_ratio3 x y armLengths)]"
  by (simp add: calculateInverseKinematics_def solver_a_def solver_b_def solver_c_def
      solver_ratio3_def solver_ratio2_def Let_def)

lemma divide_by_zero_not_ratio: "\<not> in_interval (n / Fin 0) lo hi"
  by (cases n) simp_all

lemma divide_by_NaN: "n / NaN = NaN"
  by (cases n) simp_all

lemma zero_times: "Fin 0 * n = Fin 0 \<or> Fin 0 * n = NaN"
  by (cases n) simp_all

lemma times_zero: "n * Fin 0 = Fin 0 \<or> n * Fin 0 = NaN"
  by (cases n) simp_all

lemma zero_denominator_not_ratio:
  "d = Fin 0 \<or> d = NaN \<Longrightarrow> \<not> in_interval (n / d) lo hi"
  by (auto simp add: divide_by_zero_not_ratio divide_by_NaN)

lemma Math_acos_not_ratio: "\<not> in_interval q (- 1) 1 \<Longrightarrow> Math_acos q = NaN"
  by (cases q) auto

lemma plus_NaN: "t + NaN = NaN"
  by (cases t) simp_all

lemma ratio3_zero_l1:
  "item armLengths 0 = Fin 0 \<Longrightarrow> \<not> in_interval (solver_ratio3 x y armLengths) (- 1) 1"
  unfolding solver_ratio3_def Let_def
  by (rule zero_denominator_not_ratio) (use zero_times in simp)

lemma ratio3_zero_b:
  "solver_b x y armLengths = Fin 0 \<Longrightarrow> \<not> in_interval (solver_ratio3 x y armLengths) (- 1) 1"
  unfolding solver_ratio3_def Let_def
  by (rule zero_denominator_not_ratio) (use times_zero in simp)

lemma ratio2_zero_l1:
  "item armLengths 0 = Fin 0 \<Longrightarrow> \<not> in_interval (solver_ratio2 x y armLengths) (- 1) 1"
  unfolding solver_ratio2_def Let_def
  by (rule zero_denominator_not_ratio) (use zero_times in simp)

lemma Math_atan2_angle: "angle_or_NaN (Math_atan2 p q)"
  by (cases p; cases q) simp_all

lemma Math_acos_angle: "angle_or_NaN (Math_acos q)"
  by (cases q) simp_all

lemma plus_angle: "angle_or_NaN s \<Longrightarrow> angle_or_NaN t \<Longrightarrow> angle_or_NaN (s + t)"
  by (cases s; cases t) simp_all

text \<open>The first ratio on a finite target and three finite lengths.\<close>

lemma solver_ratio3_finite:
  "solver_ratio3 (Fin x) (Fin y) [Fin l1, Fin l2, Fin l3] =
     (if l1 = 0 \<or> ik_b x y l2 l3 = 0 then NaN else Fin 0)"
proof -
  define bb where "bb = ik_b x y l2 l3"
  define c where "c = ik_c x y l1 l2 l3"
  have a: "solver_a (Fin x) (Fin y) [Fin l1, Fin l2, Fin l3] = Fin (sqrt (x\<^sup>2 + y\<^sup>2) - l3)"
    unfolding solver_a_def by (simp only: item_triple Math_sqrt_sum_squares Fin_minus)
  have b: "solver_b (Fin x) (Fin y) [Fin l1, Fin l2, Fin l3] = Fin bb"
    unfolding solver_b_def Let_def a
    by (simp only: item_triple Math_sqrt_sum_squares bb_def ik_b_def)
  have c: "solver_c (Fin x) (Fin y) [Fin l1, Fin l2, Fin l3] = Fin c"
    unfolding solver_c_def Let_def b
    by (simp only: item_triple Math_sqrt_sum_squares c_def ik_c_def bb_def)
  have csq: "c * c = l1 * l1 + bb * bb"
    using ik_c_sq [of x y l1 l2 l3] by (simp add: c_def bb_def power2_eq_square)
  show ?thesis
    unfolding solver_ratio3_def Let_def b c item_triple
    by (simp add: Fin_minus csq bb_def)
qed

text \<open>The third \<open>lineTo\<close> of \<open>drawArm\<close> ends at the tip of the chain.\<close>

lemma arm_end_effector:
  "lineTos (drawArm [] bx by [l1, l2, l3] [t1, t2, t3] bw) ! 2 =
     link_end (link_end (link_end (bx + bw / Fin 1.25, by) l1 t1) l2 t2) l3 t3"
  by (simp add: drawArm_def drawGripper_def Let_def item_def)

section \<open>The inverse-kinematics solver against the specification\<close>

text \<open>
  Claim C1 says that the solver fails with a ReachabilityError when \<open>b = 0\<close>, when
  \<open>l1 = 0\<close> or when a ratio leaves \<open>[-1, 1]\<close>, and never returns a NaN angle. The
  function has no failing path. With \<open>l1 = 0\<close> and the target \<open>(100, 50)\<close> it returns a
  list whose second and third angles are NaN.
\<close>

theorem ik_zero_l1_returns_nan:
  "calculateInverseKinematics (Fin 100) (Fin 50) [Fin 0, Fin 80, Fin 60] =
     [Fin (arctan (1 / 2)), NaN, NaN]"
  by (simp add: ik_code_cases atan2_def)

text \<open>
  Claim C1 as amended: for every target and every list of link lengths the solver
  returns three values and fails on no path. Whenever \<open>l1 = 0\<close> or the computed \<open>b\<close> is
  \<open>0\<close>, or whenever the first ratio is not a number in \<open>[-1, 1]\<close>, the returned
  \<open>theta3\<close> is NaN; whenever \<open>l1 = 0\<close> or the second ratio is not a number in
  \<open>[-1, 1]\<close>, the returned \<open>theta2\<close> is NaN.
\<close>

theorem ik_degenerate_returns_nan:
  "length (calculateInverseKinematics x y armLengths) = 3 \<and>
   (item armLengths 0 = Fin 0 \<or> solver_b x y armLengths = Fin 0 \<or>
    \<not> in_interval (solver_ratio3 x y armLengths) (- 1) 1
      \<longrightarrow> calculateInverseKinematics x y armLengths ! 2 = NaN) \<and>
   (item armLengths 0 = Fin 0 \<or> \<not> in_interval (solver_ratio2 x y armLengths) (- 1) 1
      \<longrightarrow> calculateInverseKinematics x y armLengths ! 1 = NaN)"
proof -
  have t3: "Math_acos (solver_ratio3 x y armLengths) = NaN"
    if "item armLengths 0 = Fin 0 \<or> solver_b x y armLengths = Fin 0 \<or>
        \<not> in_interval (solver_ratio3 x y armLengths) (- 1) 1"
    using that ratio3_zero_l1 ratio3_zero_b Math_acos_not_ratio by blast
  have t2: "Math_acos (solver_ratio2 x y armLengths) = NaN"
    if "item armLengths 0 = Fin 0 \<or> \<not> in_interval (solver_ratio2 x y armLengths) (- 1) 1"
    using that ratio2_zero_l1 Math_acos_not_ratio by blast
  show ?thesis
    using t3 t2 by (simp add: ik_by_parts plus_NaN)
qed

theorem ik_degenerate_returns_nan_witness:
  "item [Fin 0, Fin 80, Fin 60] 0 = Fin 0 \<and>
   calculateInverseKinematics (Fin 100) (Fin 50) [Fin 0, Fin 80, Fin 60] ! 2 = NaN \<and>
   calculateInverseKinematics (Fin 100) (Fin 50) [Fin 0, Fin 80, Fin 60] ! 1 = NaN"
  using ik_degenerate_returns_nan [of "Fin 100" "Fin 50" "[Fin 0, Fin 80, Fin 60]"]
  by (simp add: item_def)

text \<open>
  Claim C2 says that the forward chain of \<open>drawArm\<close>, fed with the angles the solver
  returns, ends at the target again, and in particular within \<open>1e-6\<close> of \<open>(100, 50)\<close>
  for the lengths \<open>[60, 80, 60]\<close>. At that input, with the shoulder anchor at the origin,
  the tip of the chain has a y-coordinate below \<open>-60\<close>: it is more than 110 away from
  \<open>y = 50\<close>, and more than 10 away from the target when y is read as pointing up.
\<close>

theorem ik_round_trip_fails_at_100_50:
  "\<exists>ex ey.
     lineTos (drawArm [] (Fin 0) (Fin 0) [Fin 60, Fin 80, Fin 60]
       (calculateInverseKinematics (Fin 100) (Fin 50) [Fin 60, Fin 80, Fin 60]) (Fin 0)) ! 2
       = (Fin ex, Fin ey) \<and> ey < - 60"
proof -
  define theta2 where
    "theta2 = atan2 (sqrt (100\<^sup>2 + 50\<^sup>2) - 60) 80 + arccos (ik_ratio2 100 50 60 80 60)"
  have far: "(60::real) < sqrt (100\<^sup>2 + 50\<^sup>2)" by (rule real_less_rsqrt) simp
  have rng: "0 < theta2 \<and> theta2 < pi"
    using ik_theta2_range [of 60 80 60 100 50] far by (simp add: theta2_def)
  then have s2: "0 < sin theta2" by (simp add: sin_gt_zero)
  have "0 < arctan (1 / 2)" by simp
  moreover have "arctan (1 / 2) < pi" using arctan_ubound [of "1 / 2"] pi_gt_zero by linarith
  ultimately have s1: "0 < sin (arctan (1 / 2))" by (rule sin_gt_zero)
  have b: "ik_b 100 50 80 60 \<noteq> 0" using ik_b_pos [of 80 100 50 60] by simp
  have ik: "calculateInverseKinematics (Fin 100) (Fin 50) [Fin 60, Fin 80, Fin 60] =
            [Fin (arctan (1 / 2)), Fin theta2, Fin (pi / 2)]"
    using b by (simp add: ik_code_cases theta2_def atan2_def)
  show ?thesis
    unfolding ik arm_end_effector using s1 s2 by (simp add: Fin_minus)
qed

text \<open>
  Claim C3: on its domain (\<open>l1\<close> and \<open>b\<close> not zero, both ratios in \<open>[-1, 1]\<close>) the solver
  returns exactly the three angles of the specification's algorithm.
\<close>

theorem ik_matches_spec_algorithm:
  "ik_domain x y l1 l2 l3 \<Longrightarrow>
   calculateInverseKinematics (Fin x) (Fin y) [Fin l1, Fin l2, Fin l3] =
     (case ik_spec x y l1 l2 l3 of
        (theta1, theta2, theta3) \<Rightarrow> [Fin theta1, Fin theta2, Fin theta3])"
  by (simp add: ik_domain_iff ik_code_cases ik_spec_eq ik_ratio3_zero)

theorem ik_matches_spec_algorithm_witness:
  "ik_domain 100 50 60 80 60 \<and>
   calculateInverseKinematics (Fin 100) (Fin 50) [Fin 60, Fin 80, Fin 60] =
     (case ik_spec 100 50 60 80 60 of
        (theta1, theta2, theta3) \<Rightarrow> [Fin theta1, Fin theta2, Fin theta3])"
proof -
  have "0 < ik_b 100 50 80 60" by (rule ik_b_pos) simp
  then have d: "ik_domain 100 50 60 80 60" by (simp add: ik_domain_iff)
  show ?thesis using d ik_matches_spec_algorithm [OF d] by simp
qed

text \<open>
  Claim C4 says that at distance exactly \<open>l1 + l2 + l3\<close> the returned angles make the
  three links collinear, and that beyond that distance the solver raises a
  ReachabilityError. With the lengths \<open>[60, 80, 60]\<close>, the target \<open>(300, 0)\<close> lies
  beyond reach and the solver returns three finite angles; the target \<open>(200, 0)\<close> lies at
  the boundary and the returned angles do not make the links collinear.
\<close>

theorem ik_boundary_counterexample:
  "list_all is_finite (calculateInverseKinematics (Fin 300) (Fin 0) [Fin 60, Fin 80, Fin 60]) \<and>
   \<not> collinear_links (calculateInverseKinematics (Fin 200) (Fin 0) [Fin 60, Fin 80, Fin 60])"
proof -
  have b: "ik_b x 0 80 60 \<noteq> 0" for x using ik_b_pos [of 80 x 0 60] by simp
  have "\<not> parallel (link_direction (Fin 0)) (link_direction (Fin (pi / 2)))"
    by (simp add: link_direction_def Fin_minus)
  then show ?thesis
    using b by (simp add: ik_code_cases collinear_links_def item_triple atan2_def)
qed

text \<open>
  Claim C4 as amended: for every link lengths and every target, whatever its distance
  from the shoulder (exactly \<open>l1 + l2 + l3\<close>, greater, or smaller), the solver raises no
  error: it returns three values, each of them a finite angle or NaN.
\<close>

theorem ik_returns_three_values:
  "length (calculateInverseKinematics x y armLengths) = 3 \<and>
   angle_or_NaN (calculateInverseKinematics x y armLengths ! 0) \<and>
   angle_or_NaN (calculateInverseKinematics x y armLengths ! 1) \<and>
   angle_or_NaN (calculateInverseKinematics x y armLengths ! 2)"
  by (simp add: ik_by_parts Math_atan2_angle Math_acos_angle plus_angle)

text \<open>
  Claim C10 says that for \<open>l1 > 0\<close> and \<open>b > 0\<close> the third angle is exactly \<open>\<pi>/2\<close>,
  whatever the target and the lengths. With the lengths \<open>[60, 80, 60]\<close> and the target
  coordinate \<open>x = Infinity\<close>, \<open>b\<close> is \<open>+Infinity\<close> and the third angle is NaN: the
  numerator \<open>l1\<^sup>2 + b\<^sup>2 - c\<^sup>2\<close> is \<open>Infinity - Infinity\<close>.
\<close>

theorem ik_theta3_nan_at_infinite_target:
  "solver_b PInf (Fin 0) [Fin 60, Fin 80, Fin 60] = PInf \<and>
   calculateInverseKinematics PInf (Fin 0) [Fin 60, Fin 80, Fin 60] ! 2 = NaN"
  by (simp add: ik_by_parts solver_ratio3_def solver_c_def solver_b_def solver_a_def Let_def
      item_def minus_number_def)

text \<open>
  Claim C10 as amended: whenever the first ratio, as the solver computes it, is exactly
  \<open>0\<close>, the third angle is \<open>Math.PI / 2\<close>, whatever the target and the lengths.
\<close>

theorem ik_theta3_right_angle_at_zero_ratio:
  "solver_ratio3 x y armLengths = Fin 0 \<Longrightarrow>
   calculateInverseKinematics x y armLengths ! 2 = Math_PI / Fin 2"
  by (simp add: ik_by_parts Math_PI_def)

theorem ik_theta3_right_angle_at_zero_ratio_witness:
  "solver_ratio3 (Fin 3) (Fin 4) [Fin 4, Fin 3, Fin 5] = Fin 0 \<and>
   calculateInverseKinematics (Fin 3) (Fin 4) [Fin 4, Fin 3, Fin 5] ! 2 = Math_PI / Fin 2"
proof -
  have "0 < ik_b 3 4 3 5" by (rule ik_b_pos) simp
  then have r: "solver_ratio3 (Fin 3) (Fin 4) [Fin 4, Fin 3, Fin 5] = Fin 0"
    by (simp add: solver_ratio3_finite)
  show ?thesis using r ik_theta3_right_angle_at_zero_ratio [OF r] by simp
qed

section \<open>The scene against the specification\<close>

text \<open>
  Claim C5: \<open>drawArm\<close> anchors the arm at \<open>(baseX + baseWidth / 1.25, baseY)\<close>, ends each
  link at the previous end point plus \<open>(l cos theta, - l sin theta)\<close> for that link's own
  angle, strokes each link from the end point of the one before, and hands the end point
  of the third link to the gripper as the end-effector position.
\<close>

theorem drawArm_kinematic_chain:
  "drawArm ctx bx by [l1, l2, l3] [theta1, theta2, theta3] bw =
     (let anchor = (bx + bw / Fin 1.25, by);
          p1 = link_end anchor l1 theta1;
          p2 = link_end p1 l2 theta2;
          p3 = link_end p2 l3 theta3
      in drawGripper
           (ctx @ segment anchor p1 ''#f00'' @ segment p1 p2 ''#0f0'' @ segment p2 p3 ''#f00'')
           (fst p3) (snd p3) theta3 (Fin 30))"
  by (simp add: drawArm_def Let_def item_def)

text \<open>
  Claim C9 says that the two wheels are centred at the left and right edges of the base,
  at \<open>x = baseX\<close> and \<open>x = baseX + baseWidth\<close>. For the base at \<open>(350, 210)\<close> with the
  component's dimensions, the circles drawn are not the ones centred at \<open>x = 350\<close> and
  \<open>x = 450\<close>.
\<close>

theorem wheels_not_on_base_edges:
  "arcs (drawBase [] (Fin 350) (Fin 210) (Fin 100) (Fin 40) (Fin 10) (Fin 300) (Fin 40)) \<noteq>
     [(Fin 350, Fin (300 - 40 - 10), Fin 10), (Fin (350 + 100), Fin (300 - 40 - 10), Fin 10)]"
  by (simp add: drawBase_def Fin_minus)

text \<open>
  Claim C9 as amended: \<open>drawBase\<close> draws exactly two circles of radius \<open>wheelRadius\<close>,
  centred one radius inside the left and the right edge of the base, at
  \<open>x = baseX + wheelRadius\<close> and \<open>x = baseX + baseWidth - wheelRadius\<close>, and vertically
  at \<open>canvasHeight - groundHeight - wheelRadius\<close>.
\<close>

theorem drawBase_wheel_centres:
  "arcs (drawBase [] baseX baseY baseWidth baseHeight wheelRadius canvasHeight groundHeight) =
     [(baseX + wheelRadius, canvasHeight - groundHeight - wheelRadius, wheelRadius),
      (baseX + baseWidth - wheelRadius, canvasHeight - groundHeight - wheelRadius, wheelRadius)]"
  by (simp add: drawBase_def)

section \<open>The base position against the specification\<close>

text \<open>
  Claim C6 says that after every click the x-coordinate of the base lies between \<open>0\<close> and
  the canvas width minus the base width. On a canvas of width 80 (a parent 100 wide) with
  the base width 100, a click at \<open>x = 10\<close> moves the base to \<open>x = -20\<close>.
\<close>

theorem click_on_narrow_canvas_leaves_range:
  "\<not> in_interval
       (pos_x (handleCanvasClick (Fin 100) (Some \<lparr>canvas_width = Fin 80, canvas_height = Fin 300\<rparr>)
          (Fin 10) (Fin 0) \<lparr>pos_x = Fin 0, pos_y = Fin 210\<rparr>))
       0 (80 - 100)"
  by (simp add: handleCanvasClick_def Let_def Fin_minus)

text \<open>
  Claim C6 as amended: when the canvas is at least as wide as the base, the x-coordinate
  of the base after a click at any finite position lies between \<open>0\<close> and the canvas width
  minus the base width.
\<close>

theorem click_keeps_base_in_range:
  "bw \<le> cw \<Longrightarrow>
   in_interval
     (pos_x (handleCanvasClick (Fin bw) (Some \<lparr>canvas_width = Fin cw, canvas_height = h\<rparr>)
        (Fin clientX) (Fin rectLeft) prev))
     0 (cw - bw)"
  by (simp add: handleCanvasClick_def Let_def Fin_minus)

theorem click_keeps_base_in_range_witness:
  "(100::real) \<le> 800 \<and>
   in_interval
     (pos_x (handleCanvasClick (Fin 100) (Some \<lparr>canvas_width = Fin 800, canvas_height = Fin 300\<rparr>)
        (Fin 790) (Fin 0) \<lparr>pos_x = Fin 350, pos_y = Fin 210\<rparr>))
     0 (800 - 100)"
  using click_keeps_base_in_range
    [of 100 800 "Fin 300" 790 0 "\<lparr>pos_x = Fin 350, pos_y = Fin 210\<rparr>"]
  by simp

text \<open>
  Claim C7 says that every click sets the x-coordinate of the base to the local
  coordinate minus half the base width, clamped into the interval from \<open>0\<close> to the canvas
  width minus the base width. On a canvas of width 80 with the base width 100 that
  interval is empty: a click at \<open>x = 10\<close> moves the base to \<open>x = -20\<close>, where clamping
  \<open>10 - 50\<close> from below gives \<open>0\<close>.
\<close>

theorem click_on_narrow_canvas_is_not_clamp:
  "pos_x (handleCanvasClick (Fin 100) (Some \<lparr>canvas_width = Fin 80, canvas_height = Fin 300\<rparr>)
      (Fin 10) (Fin 0) \<lparr>pos_x = Fin 0, pos_y = Fin 210\<rparr>) = Fin (- 20) \<and>
   clamp 0 (80 - 100) (10 - 0 - 100 / 2) = 0"
  by (simp add: handleCanvasClick_def Let_def Fin_minus clamp_def)

text \<open>
  Claim C7 as amended: when the canvas is at least as wide as the base, a click at the
  local coordinate \<open>clientX - rectLeft\<close> sets the x-coordinate of the base to that
  coordinate minus half the base width, clamped into the interval from \<open>0\<close> to the canvas
  width minus the base width. Every click leaves the y-coordinate as it was. With the
  canvas width 800 and the base width 100, a click at 10 gives \<open>x = 0\<close> and a click at
  790 gives \<open>x = 700\<close>.
\<close>

theorem click_sets_clamped_x:
  "(bw \<le> cw \<longrightarrow>
      handleCanvasClick (Fin bw) (Some \<lparr>canvas_width = Fin cw, canvas_height = h\<rparr>)
        (Fin clientX) (Fin rectLeft) prev
      = prev\<lparr>pos_x := Fin (clamp 0 (cw - bw) ((clientX - rectLeft) - bw / 2))\<rparr>) \<and>
   pos_y (handleCanvasClick baseWidth canvasRef cx left prev) = pos_y prev \<and>
   pos_x (handleCanvasClick (Fin 100) (Some \<lparr>canvas_width = Fin 800, canvas_height = h\<rparr>)
      (Fin 10) (Fin 0) prev) = Fin 0 \<and>
   pos_x (handleCanvasClick (Fin 100) (Some \<lparr>canvas_width = Fin 800, canvas_height = h\<rparr>)
      (Fin 790) (Fin 0) prev) = Fin 700"
  by (auto simp add: handleCanvasClick_def Let_def Fin_minus clamp_def split: option.split)

theorem click_sets_clamped_x_witness:
  "(100::real) \<le> 800 \<and>
   handleCanvasClick (Fin 100) (Some \<lparr>canvas_width = Fin 800, canvas_height = Fin 300\<rparr>)
     (Fin 410) (Fin 10) \<lparr>pos_x = Fin 0, pos_y = Fin 210\<rparr>
   = \<lparr>pos_x = Fin 350, pos_y = Fin 210\<rparr>"
  using click_sets_clamped_x
    [of 100 800 "Fin 300" 410 10 "\<lparr>pos_x = Fin 0, pos_y = Fin 210\<rparr>"]
  by (simp add: clamp_def)

text \<open>
  Claim C8: the first run of the effect on the unset position \<open>(0, 0)\<close> sets the centred
  resting pose, \<open>x = (width - 100) / 2\<close> and \<open>y = 300 - 40 - 40 - 10\<close>; a further run
  leaves that position as it is, whatever canvas, context and width it is given.
\<close>

theorem initialization_idempotent:
  "fst (snd (WMMCanvas_effect (Some canvas) True w initialBasePosition)) =
     \<lparr>pos_x = (w - Fin 100) / Fin 2, pos_y = Fin 300 - Fin 40 - Fin 40 - Fin 10\<rparr> \<and>
   fst (snd (WMMCanvas_effect canvasRef' hasContext' w'
     (fst (snd (WMMCanvas_effect (Some canvas) True w initialBasePosition))))) =
   fst (snd (WMMCanvas_effect (Some canvas) True w initialBasePosition))"
  by (simp add: WMMCanvas_effect_def Let_def initialBasePosition_def strict_eq_def Fin_minus
      split: option.split)

end
